theory Spec2Isabelle
  imports Complex_Main "HOL-Library.Multiset"
begin

section \<open>The buffer manager of \<open>src/player.js\<close>\<close>

text \<open>
  The source file holds two bodies of the class \<open>BufferManager\<close>: the one of lines 95-338
  and the one of lines 368-582. They share every method modelled here and differ in three
  places: \<open>increaseQuality\<close> (only the second body sets \<open>restrictToScreenSize\<close>),
  \<open>segmentDownloaded\<close> (only the first body stores a \<open>delay\<close>) and \<open>startMonitoring\<close>
  (period and body of the timer). An object is an instance of one of the two, and the model
  keeps that as the field \<open>klass\<close> of the object.
\<close>

datatype klass = First | Second

subsection \<open>Data\<close>

text \<open>
  A variant is an object of the host player; the code reads its \<open>bandwidth\<close> only.
  \<open>vid\<close> tells two variants of equal bandwidth apart.
\<close>

record variant =
  vid :: nat
  bandwidth :: int

text \<open>
  A JavaScript array is an object: \<open>setVariants\<close> stores the reference it is given, and
  \<open>Array.prototype.sort\<close> reorders the array behind the reference. \<open>ref\<close> says which
  array object it is (one that the host passed in, or an array literal \<open>[]\<close> evaluated by
  the manager), \<open>elems\<close> what it holds now.
\<close>

datatype array_ref = HostArray nat | OwnArray

record variant_array =
  ref :: array_ref
  elems :: "variant list"

text \<open>
  Modelled from the spec: the configuration object is declared by the host player and not
  in the source; its fields are those of the spec's data model (section 3),
  \<open>safeMarginSwitch\<close> and \<open>clearBufferSwitch\<close> as booleans. The source writes
  \<open>config_.restrictions.maxBandwidth\<close> and \<open>config_.restrictToScreenSize\<close> and reads the
  two switch fields.
\<close>

record restrictions_t =
  maxBandwidth :: int

record config =
  safeMarginSwitch :: bool
  clearBufferSwitch :: bool
  cfg_restrictions :: restrictions_t
  restrictToScreenSize :: bool

text \<open>
  An entry of \<open>downloadedSegments\<close>. A field is \<open>None\<close> where the object has no such
  property (reading it gives \<open>undefined\<close>) or where it holds \<open>NaN\<close>: both are \<open>NaN\<close> in
  arithmetic and fail every comparison. Times are integers of milliseconds, as \<open>Date.now()\<close>
  gives them.
\<close>

record segment =
  contentType :: "string option"
  timestamp :: "int option"
  latency :: "int option"
  delay :: "int option"

text \<open>The fields of the host's request object that \<open>segmentDownloaded\<close> reads.\<close>

record request =
  req_contentType :: "string option"
  timeToFirstByte :: "int option"
  requestStartTime :: "int option"

text \<open>
  What the manager does to its host: it asks for the buffer fullness, it invokes the
  switch callback (identified by a number) with a variant and the two switch fields of the
  configuration, it disconnects a resize observer, and its timer reports to the page or
  the console.
\<close>

datatype host_call =
    GetBufferFullness
  | SwitchQuality nat variant bool bool
  | Disconnect
  | Report

datatype error = TypeError

text \<open>
  The object. \<open>intervals\<close> and \<open>hostCalls\<close> are not fields of the source: \<open>intervals\<close> holds
  the periods of the timers registered with \<open>setInterval\<close> (the source discards the handle
  that \<open>setInterval\<close> returns), \<open>hostCalls\<close> the calls made to the host so far. The fields
  that the constructor sets and no modelled method reads or writes (\<open>mediaElement\<close>,
  \<open>player\<close>, \<open>failedSegments\<close>, \<open>isStartupComplete\<close>, \<open>monitorInterval\<close>,
  \<open>lastDownloadedSegments\<close>, \<open>bufferPercentage\<close>) are left out. The source's fields
  \<open>config_\<close>, \<open>enabled_\<close> and \<open>playbackRate_\<close> are \<open>config_m\<close>, \<open>enabled_m\<close> and
  \<open>playbackRate_m\<close>, since a name cannot end in an underscore here. The buffer fullness and
  the two thresholds are real numbers: the exact values of the doubles, which the code
  only rounds to one decimal and compares.
\<close>

record manager =
  klass :: klass
  switchQualityCallback :: "nat option"
  enabled_m :: bool
  isEnabled :: "bool option"
  videoVariants :: variant_array
  downloadedSegments :: "segment list"
  playbackRate :: int
  playbackRate_m :: int
  lastQualityChangeTime :: "int option"
  config_m :: "config option"
  cmsdManager :: "nat option"
  resizeObserver :: "nat option"
  highBufferThreshold :: real
  lowBufferThreshold :: real
  currentQualityIndex :: int
  bufferLevel :: real
  lastDownloadedSegmentsCount :: "nat option"
  intervals :: "nat list"
  hostCalls :: "host_call list"

type_synonym 'a result = "(error + 'a) \<times> manager"

subsection \<open>Setters\<close>

definition init :: "nat \<Rightarrow> manager \<Rightarrow> manager" where
  "init switchQualityCallback' s = s\<lparr>switchQualityCallback := Some switchQualityCallback'\<rparr>"

definition setVariants :: "variant_array \<Rightarrow> manager \<Rightarrow> manager" where
  "setVariants variants s = s\<lparr>videoVariants := variants\<rparr>"

definition configure :: "config \<Rightarrow> manager \<Rightarrow> manager" where
  "configure config' s = s\<lparr>config_m := Some config'\<rparr>"

definition enable :: "manager \<Rightarrow> manager" where
  "enable s = s\<lparr>enabled_m := True\<rparr>"

definition disable :: "manager \<Rightarrow> manager" where
  "disable s = s\<lparr>enabled_m := False\<rparr>"

definition playbackRateChanged :: "int \<Rightarrow> manager \<Rightarrow> manager" where
  "playbackRateChanged rate s = s\<lparr>playbackRate_m := rate\<rparr>"

text \<open>\<open>addSegment(type, time)\<close> pushes an object with the properties \<open>type\<close> and \<open>time\<close>
  only, so all four fields read elsewhere are missing from it.\<close>

definition addSegment :: "manager \<Rightarrow> manager" where
  "addSegment s = s\<lparr>downloadedSegments := downloadedSegments s @
     [\<lparr>contentType = None, timestamp = None, latency = None, delay = None\<rparr>]\<rparr>"

definition stop :: "manager \<Rightarrow> manager" where
  "stop s =
    (let s1 = s\<lparr>switchQualityCallback := None,
                isEnabled := Some False,
                videoVariants := \<lparr>ref = OwnArray, elems = []\<rparr>,
                playbackRate := 1,
                lastQualityChangeTime := None\<rparr>;
         s2 = (case resizeObserver s1 of
                 Some obs \<Rightarrow> s1\<lparr>hostCalls := hostCalls s1 @ [Disconnect], resizeObserver := None\<rparr>
               | None \<Rightarrow> s1)
     in s2\<lparr>cmsdManager := None\<rparr>)"

subsection \<open>Choosing a variant\<close>

text \<open>
  \<open>this.videoVariants.sort(cmp)\<close> sorts the array object in place (stably, by ascending
  bandwidth) and returns the same object; indexing outside \<open>0 .. length - 1\<close> gives
  \<open>undefined\<close>, which is \<open>None\<close>.
\<close>

definition getVariantByQualityIndex :: "int \<Rightarrow> manager \<Rightarrow> variant option \<times> manager" where
  "getVariantByQualityIndex qualityIndex s =
    (let sortedVariants = sort_key bandwidth (elems (videoVariants s));
         s' = s\<lparr>videoVariants := (videoVariants s)\<lparr>elems := sortedVariants\<rparr>\<rparr>
     in (if 0 \<le> qualityIndex \<and> qualityIndex < int (length sortedVariants)
         then Some (sortedVariants ! nat qualityIndex) else None, s'))"

text \<open>Writing a property of \<open>config_\<close> while it is \<open>null\<close> throws a TypeError.\<close>

definition restrictions :: "int \<Rightarrow> manager \<Rightarrow> unit result" where
  "restrictions bandwidth' s =
    (case config_m s of
       None \<Rightarrow> (Inl TypeError, s)
     | Some c \<Rightarrow> (Inr (), s\<lparr>config_m :=
         Some (c\<lparr>cfg_restrictions := (cfg_restrictions c)\<lparr>maxBandwidth := bandwidth'\<rparr>\<rparr>)\<rparr>))"

text \<open>
  The argument of \<open>restrictions\<close> is evaluated first: reading \<open>.bandwidth\<close> of \<open>undefined\<close>
  throws a TypeError, after the index has been changed.
\<close>

definition decreaseQuality :: "manager \<Rightarrow> unit result" where
  "decreaseQuality s =
    (if currentQualityIndex s > 0 then
       (let s1 = s\<lparr>currentQualityIndex := currentQualityIndex s - 1\<rparr> in
        case getVariantByQualityIndex (currentQualityIndex s1) s1 of
          (None, s2) \<Rightarrow> (Inl TypeError, s2)
        | (Some v, s2) \<Rightarrow> restrictions (bandwidth v) s2)
     else (Inr (), s))"

definition increaseQuality :: "manager \<Rightarrow> unit result" where
  "increaseQuality s =
    (let maxQualityIndex = int (length (elems (videoVariants s))) - 1 in
     if currentQualityIndex s < maxQualityIndex then
       (let s1 = s\<lparr>currentQualityIndex := currentQualityIndex s + 1\<rparr> in
        case getVariantByQualityIndex (currentQualityIndex s1) s1 of
          (None, s2) \<Rightarrow> (Inl TypeError, s2)
        | (Some v, s2) \<Rightarrow>
            (case restrictions (bandwidth v) s2 of
               (Inl e, s3) \<Rightarrow> (Inl e, s3)
             | (Inr u, s3) \<Rightarrow>
                 (case klass s3 of
                    First \<Rightarrow> (Inr (), s3)
                  | Second \<Rightarrow> (Inr (), s3\<lparr>config_m :=
                      map_option (\<lambda>c. c\<lparr>restrictToScreenSize := True\<rparr>) (config_m s3)\<rparr>))))
     else (Inr (), s))"

text \<open>The parameter \<open>preferFastSwitching\<close> is not read and is left out.\<close>

definition chooseVariant :: "manager \<Rightarrow> variant option result" where
  "chooseVariant s =
    (case (if bufferLevel s < lowBufferThreshold s then decreaseQuality s
           else if bufferLevel s > highBufferThreshold s then increaseQuality s
           else (Inr (), s)) of
       (Inl e, s1) \<Rightarrow> (Inl e, s1)
     | (Inr u, s1) \<Rightarrow>
         (case getVariantByQualityIndex (currentQualityIndex s1) s1 of
            (v, s2) \<Rightarrow> (Inr v, s2)))"

text \<open>
  \<open>x.toFixed(1)\<close> is the decimal with one digit after the point that is nearest to \<open>x\<close>,
  the one of larger magnitude in a tie. It is a string; the comparisons of \<open>chooseVariant\<close>
  turn it back into a number, and two decimals with one digit compare as doubles the way
  they compare as decimals, so \<open>bufferLevel\<close> holds the decimal.
\<close>

definition toFixed1 :: "real \<Rightarrow> real" where
  "toFixed1 x =
    (if x < 0 then - (of_int \<lfloor>(- x) * 10 + 1 / 2\<rfloor> / 10)
     else of_int \<lfloor>x * 10 + 1 / 2\<rfloor> / 10)"

text \<open>
  \<open>fullness\<close> is what the host's \<open>getBufferFullness\<close> returns when it is called. The
  arguments of the callback are evaluated before the call, so a \<open>null\<close> configuration and a
  \<open>null\<close> callback both end in a TypeError, without a call.
\<close>

definition startMonitoringBuffer :: "real \<Rightarrow> manager \<Rightarrow> unit result" where
  "startMonitoringBuffer fullness s =
    (let s0 = s\<lparr>hostCalls := hostCalls s @ [GetBufferFullness]\<rparr>;
         s1 = s0\<lparr>bufferLevel := toFixed1 fullness\<rparr>
     in case chooseVariant s1 of
          (Inl e, s2) \<Rightarrow> (Inl e, s2)
        | (Inr None, s2) \<Rightarrow> (Inr (), s2)
        | (Inr (Some chosenVariant), s2) \<Rightarrow>
            (case (config_m s2, switchQualityCallback s2) of
               (Some c, Some f) \<Rightarrow>
                 (Inr (), s2\<lparr>hostCalls := hostCalls s2 @
                    [SwitchQuality f chosenVariant (safeMarginSwitch c) (clearBufferSwitch c)]\<rparr>)
             | _ \<Rightarrow> (Inl TypeError, s2)))"

subsection \<open>Telemetry\<close>

text \<open>
  \<open>now1\<close> and \<open>now2\<close> are the two readings of \<open>Date.now()\<close>, in the order of the source; the
  second body reads the clock once (\<open>now2\<close>). \<open>request\<close> is \<open>None\<close> when the host leaves
  the argument out, and reading a property of it then throws a TypeError.
\<close>

definition segmentDownloaded ::
  "int \<Rightarrow> int \<Rightarrow> bool \<Rightarrow> request option \<Rightarrow> real \<Rightarrow> int \<Rightarrow> int \<Rightarrow> manager \<Rightarrow> unit result" where
  "segmentDownloaded deltaTimeMs numBytes allowSwitch request' fullness now1 now2 s =
    (case (if allowSwitch then startMonitoringBuffer fullness s else (Inr (), s)) of
       (Inl e, s1) \<Rightarrow> (Inl e, s1)
     | (Inr u, s1) \<Rightarrow>
         (case request' of
            None \<Rightarrow> (Inl TypeError, s1)
          | Some r \<Rightarrow>
              (let ttfb = (case timeToFirstByte r of None \<Rightarrow> 0 | Some t \<Rightarrow> t);
                   liveLatency = deltaTimeMs + ttfb;
                   segmentDelay = map_option (\<lambda>t0. now1 - t0 + ttfb) (requestStartTime r);
                   segmentData = \<lparr>contentType = req_contentType r,
                                  timestamp = Some now2,
                                  latency = Some liveLatency,
                                  delay = (case klass s1 of First \<Rightarrow> segmentDelay | Second \<Rightarrow> None)\<rparr>
               in (Inr (), s1\<lparr>downloadedSegments := downloadedSegments s1 @ [segmentData]\<rparr>))))"

text \<open>The loop of \<open>calculateDelay\<close>: the two parameters are the accumulators.\<close>

fun calculateDelay_forEach ::
  "segment list \<Rightarrow> int option \<times> int option \<Rightarrow> int option \<times> int option" where
  "calculateDelay_forEach [] acc = acc"
| "calculateDelay_forEach (item # rest) (videoTimestamp, audioTimestamp) =
     calculateDelay_forEach rest
       (if contentType item = Some ''video'' then (timestamp item, audioTimestamp)
        else if contentType item = Some ''audio'' then (videoTimestamp, timestamp item)
        else (videoTimestamp, audioTimestamp))"

text \<open>A parameter is \<open>None\<close> when the caller leaves it out; the result \<open>None\<close> is \<open>NaN\<close>.\<close>

definition calculateDelay :: "int option \<Rightarrow> int option \<Rightarrow> manager \<Rightarrow> int option" where
  "calculateDelay videoTimestamp audioTimestamp s =
    (case calculateDelay_forEach (downloadedSegments s) (videoTimestamp, audioTimestamp) of
       (Some v, Some a) \<Rightarrow> Some \<bar>v - a\<bar>
     | _ \<Rightarrow> None)"

text \<open>
  \<open>calculateJitter\<close> of the first body is not modelled: its value is the result of
  double-precision arithmetic (a division, \<open>Math.pow\<close>, \<open>Math.sqrt\<close>) rounded by
  \<open>Math.round\<close>, and the rounding of doubles decides it.
\<close>

subsection \<open>The timer and the constructor\<close>

definition startMonitoring :: "manager \<Rightarrow> manager" where
  "startMonitoring s =
    s\<lparr>intervals := intervals s @ [case klass s of First \<Rightarrow> 1000 | Second \<Rightarrow> 5000]\<rparr>"

text \<open>
  One run of the timer's callback at time \<open>currentTime\<close>. The first body builds a
  \<open>DisplayStats\<close> from \<open>getLatencyStatistics()\<close>, which is \<open>null\<close> while no segment is
  recorded, and \<open>displayToContainer\<close> then throws; the second body logs
  \<open>calculateDelay()\<close>. What is shown is the host's business; the model records that a
  report was made.
\<close>

definition monitorTick :: "int \<Rightarrow> manager \<Rightarrow> unit result" where
  "monitorTick currentTime s =
    (let recentSegments = filter
           (\<lambda>segment. case timestamp segment of
                         None \<Rightarrow> False
                       | Some t \<Rightarrow> currentTime - t \<le> 5000)
           (downloadedSegments s);
         s1 = s\<lparr>lastDownloadedSegmentsCount := Some (length recentSegments)\<rparr>
     in case klass s1 of
          First \<Rightarrow> (if downloadedSegments s1 = [] then (Inl TypeError, s1)
                    else (Inr (), s1\<lparr>hostCalls := hostCalls s1 @ [Report]\<rparr>))
        | Second \<Rightarrow> (Inr (), s1\<lparr>hostCalls := hostCalls s1 @ [Report]\<rparr>))"

text \<open>
  The event loop runs the callback of a timer only while the timer is registered:
  \<open>timerTick\<close> is \<open>None\<close> when no interval is.
\<close>

definition timerTick :: "int \<Rightarrow> manager \<Rightarrow> unit result option" where
  "timerTick currentTime s =
    (if intervals s = [] then None else Some (monitorTick currentTime s))"

text \<open>
  The constructor: the field initialisers, then \<open>startMonitoring()\<close> and
  \<open>startMonitoringBuffer()\<close>. (\<open>setupErrorHandling()\<close> of the first body registers a
  response filter with the host and touches no field modelled here.)
\<close>

definition fields0 :: "klass \<Rightarrow> manager" where
  "fields0 k =
    \<lparr>klass = k,
     switchQualityCallback = None,
     enabled_m = False,
     isEnabled = None,
     videoVariants = \<lparr>ref = OwnArray, elems = []\<rparr>,
     downloadedSegments = [],
     playbackRate = 1,
     playbackRate_m = 1,
     lastQualityChangeTime = None,
     config_m = None,
     cmsdManager = None,
     resizeObserver = None,
     highBufferThreshold = 8 / 10,
     lowBufferThreshold = 3 / 10,
     currentQualityIndex = 0,
     bufferLevel = 0,
     lastDownloadedSegmentsCount = None,
     intervals = [],
     hostCalls = []\<rparr>"

definition constructor :: "klass \<Rightarrow> real \<Rightarrow> unit result" where
  "constructor k fullness = startMonitoringBuffer fullness (startMonitoring (fields0 k))"


subsection \<open>Observations and example objects\<close>

text \<open>\<open>config_.restrictions.maxBandwidth\<close>, where there is a configuration.\<close>

definition maxBandwidth_of :: "manager \<Rightarrow> int option" where
  "maxBandwidth_of s = map_option (\<lambda>c. maxBandwidth (cfg_restrictions c)) (config_m s)"

definition restrictToScreenSize_of :: "manager \<Rightarrow> bool option" where
  "restrictToScreenSize_of s = map_option restrictToScreenSize (config_m s)"

text \<open>
  A host array with the catalog of the spec's examples, a configuration, and the object of
  a session: constructed (with an empty buffer), then given the catalog, a switch callback
  and the configuration.
\<close>

definition catalog3 :: variant_array where
  "catalog3 = \<lparr>ref = HostArray 0,
     elems = [\<lparr>vid = 0, bandwidth = 100\<rparr>, \<lparr>vid = 1, bandwidth = 500\<rparr>,
              \<lparr>vid = 2, bandwidth = 1000\<rparr>]\<rparr>"

definition config0 :: config where
  "config0 = \<lparr>safeMarginSwitch = False, clearBufferSwitch = False,
     cfg_restrictions = \<lparr>maxBandwidth = 0\<rparr>, restrictToScreenSize = False\<rparr>"

definition session :: "klass \<Rightarrow> manager" where
  "session k = configure config0 (init 0 (setVariants catalog3 (snd (constructor k 0))))"

subsection \<open>Feeding buffer samples\<close>

text \<open>
  The host feeds one sample after the other. An exception thrown by an evaluation goes to
  the host and the object stays as the evaluation left it, so the next evaluation starts
  from there. \<open>feed\<close> gives the object after each evaluation.
\<close>

fun feed :: "real list \<Rightarrow> manager \<Rightarrow> manager list" where
  "feed [] s = []"
| "feed (x # xs) s = snd (startMonitoringBuffer x s) # feed xs (snd (startMonitoringBuffer x s))"

definition catalogSize :: "manager \<Rightarrow> int" where
  "catalogSize s = int (length (elems (videoVariants s)))"

text \<open>The range of the spec, \<open>[0, catalogSize - 1]\<close>, which is empty for an empty catalog.\<close>

definition in_catalog_range :: "manager \<Rightarrow> bool" where
  "in_catalog_range s =
    (0 \<le> currentQualityIndex s \<and> currentQualityIndex s \<le> catalogSize s - 1)"

text \<open>The range that the code keeps: the same for a catalog that is not empty, and \<open>{0}\<close>
  for the empty catalog.\<close>

definition index_within :: "manager \<Rightarrow> bool" where
  "index_within s =
    (0 \<le> currentQualityIndex s \<and> currentQualityIndex s \<le> max 0 (catalogSize s - 1))"

text \<open>From each object to the next the index moves by at most 1.\<close>

fun single_steps :: "manager \<Rightarrow> manager list \<Rightarrow> bool" where
  "single_steps s [] = True"
| "single_steps s (t # ts) =
     (\<bar>currentQualityIndex t - currentQualityIndex s\<bar> \<le> 1 \<and> single_steps t ts)"

subsection \<open>Calls of the switch callback, and two more example objects\<close>

fun isSwitchQuality :: "host_call \<Rightarrow> bool" where
  "isSwitchQuality (SwitchQuality f v a b) = True"
| "isSwitchQuality _ = False"

definition switchCalls :: "manager \<Rightarrow> host_call list" where
  "switchCalls s = filter isSwitchQuality (hostCalls s)"

text \<open>A host array that is not in order of bandwidth.\<close>

definition catalog_unsorted :: variant_array where
  "catalog_unsorted = \<lparr>ref = HostArray 1,
     elems = [\<lparr>vid = 0, bandwidth = 500\<rparr>, \<lparr>vid = 1, bandwidth = 1000\<rparr>,
              \<lparr>vid = 2, bandwidth = 100\<rparr>]\<rparr>"

text \<open>The session object after one evaluation with a full buffer: it is at index 1.\<close>

definition played :: manager where
  "played = snd (startMonitoringBuffer (9 / 10) (session First))"

subsection \<open>The telemetry in the words of the spec\<close>

text \<open>
  The timestamp seen last for a content type: that of the last record of the type, and
  \<open>given\<close> when there is none. The absolute difference of two timestamps is \<open>NaN\<close> when
  one of them is missing.
\<close>

definition last_seen :: "string \<Rightarrow> int option \<Rightarrow> segment list \<Rightarrow> int option" where
  "last_seen ty given segs =
    (case filter (\<lambda>r. contentType r = Some ty) segs of
       [] \<Rightarrow> given
     | r # rs \<Rightarrow> timestamp (last (r # rs)))"

definition abs_difference :: "int option \<Rightarrow> int option \<Rightarrow> int option" where
  "abs_difference v a = (case (v, a) of (Some x, Some y) \<Rightarrow> Some \<bar>x - y\<bar> | _ \<Rightarrow> None)"

text \<open>
  The record of the spec's \<open>recordDownload\<close>: latency is the download time plus the time
  to the first byte, delay the time since the start of the request plus the time to the
  first byte (kept by the first class body only), timestamp the time of recording.
\<close>

definition segmentRecord :: "klass \<Rightarrow> int \<Rightarrow> request \<Rightarrow> int \<Rightarrow> int \<Rightarrow> segment" where
  "segmentRecord k deltaTime r now1 now2 =
    \<lparr>contentType = req_contentType r,
     timestamp = Some now2,
     latency = Some (deltaTime + (case timeToFirstByte r of None \<Rightarrow> 0 | Some t \<Rightarrow> t)),
     delay = (case k of
                First \<Rightarrow> (case requestStartTime r of
                            None \<Rightarrow> None
                          | Some t0 \<Rightarrow> Some (now1 - t0 + (case timeToFirstByte r of None \<Rightarrow> 0 | Some t \<Rightarrow> t)))
              | Second \<Rightarrow> None)\<rparr>"

text \<open>Every evaluation asks the host for the buffer fullness once: the evaluations so far.\<close>

definition evaluations :: "manager \<Rightarrow> nat" where
  "evaluations s = length (filter (\<lambda>c. c = GetBufferFullness) (hostCalls s))"

text \<open>
  More example objects: a request; an object with a catalog and neither configuration nor
  callback; a session with one video segment recorded; a session with three segments
  recorded, of delays 100, 200 and 300.
\<close>

definition request1 :: request where
  "request1 = \<lparr>req_contentType = Some ''video'', timeToFirstByte = Some 10, requestStartTime = Some 0\<rparr>"

definition unconfigured :: manager where
  "unconfigured = setVariants catalog3 (snd (constructor First 0))"

text \<open>That object after one evaluation with a full buffer: it is at index 1.\<close>

definition unconfigured_up :: manager where
  "unconfigured_up = snd (startMonitoringBuffer (9 / 10) unconfigured)"

definition video_only :: manager where
  "video_only = snd (segmentDownloaded 40 1000 False (Some request1) 0 90 90 (session Second))"

definition telemetry3 :: manager where
  "telemetry3 =
    snd (segmentDownloaded 50 1000 False
      (Some \<lparr>req_contentType = Some ''video'', timeToFirstByte = Some 20, requestStartTime = Some 500\<rparr>)
      0 780 781
    (snd (segmentDownloaded 60 1000 False
      (Some \<lparr>req_contentType = Some ''audio'', timeToFirstByte = None, requestStartTime = Some 100\<rparr>)
      0 300 300
    (snd (segmentDownloaded 40 1000 False
      (Some \<lparr>req_contentType = Some ''video'', timeToFirstByte = Some 10, requestStartTime = Some 0\<rparr>)
      0 90 90 (session First))))))"

section \<open>Basic facts\<close>

lemma getVariant_fst:
  "fst (getVariantByQualityIndex i s) =
    (if 0 \<le> i \<and> i < int (length (elems (videoVariants s)))
     then Some (sort_key bandwidth (elems (videoVariants s)) ! nat i) else None)"
  by (simp add: getVariantByQualityIndex_def Let_def)

lemma getVariant_snd:
  "snd (getVariantByQualityIndex i s) =
    s\<lparr>videoVariants := (videoVariants s)\<lparr>elems := sort_key bandwidth (elems (videoVariants s))\<rparr>\<rparr>"
  by (simp add: getVariantByQualityIndex_def Let_def)

text \<open>\<open>startMonitoringBuffer\<close> in terms of what \<open>chooseVariant\<close> gives.\<close>

lemma startMonitoringBuffer_cases:
  assumes "chooseVariant (s\<lparr>hostCalls := hostCalls s @ [GetBufferFullness],
                            bufferLevel := toFixed1 x\<rparr>) = (r, t)"
  shows "startMonitoringBuffer x s =
    (case r of
       Inl e \<Rightarrow> (Inl e, t)
     | Inr None \<Rightarrow> (Inr (), t)
     | Inr (Some v) \<Rightarrow>
         (case (config_m t, switchQualityCallback t) of
            (Some c, Some f) \<Rightarrow>
              (Inr (), t\<lparr>hostCalls := hostCalls t @
                 [SwitchQuality f v (safeMarginSwitch c) (clearBufferSwitch c)]\<rparr>)
          | _ \<Rightarrow> (Inl TypeError, t)))"
  using assms by (simp add: startMonitoringBuffer_def split: sum.splits option.splits)

lemmas run_defs = session_def configure_def init_def setVariants_def constructor_def
  startMonitoring_def fields0_def catalog3_def config0_def startMonitoringBuffer_def
  chooseVariant_def decreaseQuality_def increaseQuality_def getVariantByQualityIndex_def
  restrictions_def toFixed1_def Let_def

lemma maxBandwidth_of_frame [simp]:
  "maxBandwidth_of (t\<lparr>hostCalls := h\<rparr>) = maxBandwidth_of t"
  "maxBandwidth_of (t\<lparr>videoVariants := v\<rparr>) = maxBandwidth_of t"
  "maxBandwidth_of (t\<lparr>currentQualityIndex := i\<rparr>) = maxBandwidth_of t"
  "maxBandwidth_of (t\<lparr>bufferLevel := b\<rparr>) = maxBandwidth_of t"
  "maxBandwidth_of (t\<lparr>config_m := Some c\<rparr>) = Some (maxBandwidth (cfg_restrictions c))"
  by (simp_all add: maxBandwidth_of_def)

lemma restrictToScreenSize_of_frame [simp]:
  "restrictToScreenSize_of (t\<lparr>hostCalls := h\<rparr>) = restrictToScreenSize_of t"
  "restrictToScreenSize_of (t\<lparr>videoVariants := v\<rparr>) = restrictToScreenSize_of t"
  "restrictToScreenSize_of (t\<lparr>currentQualityIndex := i\<rparr>) = restrictToScreenSize_of t"
  "restrictToScreenSize_of (t\<lparr>bufferLevel := b\<rparr>) = restrictToScreenSize_of t"
  "restrictToScreenSize_of (t\<lparr>config_m := Some c\<rparr>) = Some (restrictToScreenSize c)"
  by (simp_all add: restrictToScreenSize_of_def)

text \<open>
  What an observation \<open>P\<close> sees after \<open>startMonitoringBuffer\<close> and after \<open>chooseVariant\<close>,
  when \<open>P\<close> does not look at the calls made to the host, or at the array.
\<close>

lemma startMonitoringBuffer_transfer:
  assumes "\<And>t h. P (t\<lparr>hostCalls := h\<rparr>) = P t"
  shows "P (snd (startMonitoringBuffer x s)) =
     P (snd (chooseVariant (s\<lparr>hostCalls := hostCalls s @ [GetBufferFullness],
                            bufferLevel := toFixed1 x\<rparr>)))"
proof -
  define s1 where
    "s1 = s\<lparr>hostCalls := hostCalls s @ [GetBufferFullness], bufferLevel := toFixed1 x\<rparr>"
  obtain r t where rt: "chooseVariant s1 = (r, t)"
    by (cases "chooseVariant s1")
  have "P (snd (startMonitoringBuffer x s)) = P t"
    unfolding startMonitoringBuffer_cases [OF rt [unfolded s1_def]]
    by (simp add: assms split: sum.splits option.splits)
  then show ?thesis
    by (simp add: rt [unfolded s1_def])
qed

lemma chooseVariant_transfer:
  assumes "\<And>t v. P (t\<lparr>videoVariants := v\<rparr>) = P t"
  shows "P (snd (chooseVariant s)) =
    (if bufferLevel s < lowBufferThreshold s then P (snd (decreaseQuality s))
     else if bufferLevel s > highBufferThreshold s then P (snd (increaseQuality s))
     else P s)"
  by (simp add: chooseVariant_def getVariantByQualityIndex_def Let_def assms
      split: prod.splits sum.splits)

section \<open>The flag of \<open>enable\<close> and \<open>disable\<close>\<close>

lemma getVariant_enabled:
  "getVariantByQualityIndex i (s\<lparr>enabled_m := b\<rparr>) =
     apsnd (enabled_m_update (\<lambda>_. b)) (getVariantByQualityIndex i s)"
  by (simp add: getVariantByQualityIndex_def Let_def)

lemma decreaseQuality_enabled:
  "decreaseQuality (s\<lparr>enabled_m := b\<rparr>) = apsnd (enabled_m_update (\<lambda>_. b)) (decreaseQuality s)"
  by (simp add: decreaseQuality_def Let_def getVariantByQualityIndex_def restrictions_def
      split: option.splits)

lemma increaseQuality_enabled:
  "increaseQuality (s\<lparr>enabled_m := b\<rparr>) = apsnd (enabled_m_update (\<lambda>_. b)) (increaseQuality s)"
  by (simp add: increaseQuality_def Let_def getVariantByQualityIndex_def restrictions_def
      split: option.splits klass.splits)

lemma chooseVariant_enabled:
  "chooseVariant (s\<lparr>enabled_m := b\<rparr>) = apsnd (enabled_m_update (\<lambda>_. b)) (chooseVariant s)"
  by (simp add: chooseVariant_def decreaseQuality_enabled increaseQuality_enabled getVariant_enabled
      split: prod.splits sum.splits)

lemma startMonitoringBuffer_enabled:
  "startMonitoringBuffer x (s\<lparr>enabled_m := b\<rparr>) =
     apsnd (enabled_m_update (\<lambda>_. b)) (startMonitoringBuffer x s)"
proof -
  define s1 where
    "s1 = s\<lparr>hostCalls := hostCalls s @ [GetBufferFullness], bufferLevel := toFixed1 x\<rparr>"
  obtain r t where rt: "chooseVariant s1 = (r, t)"
    by (cases "chooseVariant s1")
  have swap: "(s\<lparr>enabled_m := b\<rparr>)\<lparr>hostCalls := hostCalls (s\<lparr>enabled_m := b\<rparr>) @ [GetBufferFullness],
                 bufferLevel := toFixed1 x\<rparr> = s1\<lparr>enabled_m := b\<rparr>"
    by (simp add: s1_def)
  have flip: "chooseVariant (s1\<lparr>enabled_m := b\<rparr>) = (r, t\<lparr>enabled_m := b\<rparr>)"
    by (simp add: chooseVariant_enabled rt)
  show ?thesis
    unfolding startMonitoringBuffer_cases [OF rt [unfolded s1_def]]
      startMonitoringBuffer_cases [OF flip [folded swap]]
    by (simp split: sum.splits option.splits)
qed

lemma segmentDownloaded_enabled:
  "segmentDownloaded d n a r x t1 t2 (s\<lparr>enabled_m := b\<rparr>) =
     apsnd (enabled_m_update (\<lambda>_. b)) (segmentDownloaded d n a r x t1 t2 s)"
  by (simp add: segmentDownloaded_def Let_def startMonitoringBuffer_enabled
      split: prod.splits sum.splits option.splits)

text \<open>
  C10. \<open>enable\<close> and \<open>disable\<close> write the field \<open>enabled_\<close> and nothing else, and
  \<open>chooseVariant\<close>, \<open>startMonitoringBuffer\<close> and \<open>segmentDownloaded\<close> do not read it: run
  after \<open>enable()\<close> or after \<open>disable()\<close>, each of them returns the same outcome (value or
  exception) and leaves the same object, up to the flag itself, which keeps the value it
  had. A disabled manager therefore switches quality and records telemetry as an enabled
  one does.
\<close>

theorem enable_disable_flag_unread:
  "enable s = s\<lparr>enabled_m := True\<rparr>
   \<and> disable s = s\<lparr>enabled_m := False\<rparr>
   \<and> fst (chooseVariant (enable s)) = fst (chooseVariant (disable s))
   \<and> snd (chooseVariant (enable s)) = enable (snd (chooseVariant (disable s)))
   \<and> snd (chooseVariant (disable s)) = disable (snd (chooseVariant (enable s)))
   \<and> fst (startMonitoringBuffer x (enable s)) = fst (startMonitoringBuffer x (disable s))
   \<and> snd (startMonitoringBuffer x (enable s)) = enable (snd (startMonitoringBuffer x (disable s)))
   \<and> snd (startMonitoringBuffer x (disable s)) = disable (snd (startMonitoringBuffer x (enable s)))
   \<and> fst (segmentDownloaded d n a r x t1 t2 (enable s))
       = fst (segmentDownloaded d n a r x t1 t2 (disable s))
   \<and> snd (segmentDownloaded d n a r x t1 t2 (enable s))
       = enable (snd (segmentDownloaded d n a r x t1 t2 (disable s)))
   \<and> snd (segmentDownloaded d n a r x t1 t2 (disable s))
       = disable (snd (segmentDownloaded d n a r x t1 t2 (enable s)))"
  by (simp add: enable_def disable_def chooseVariant_enabled startMonitoringBuffer_enabled
      segmentDownloaded_enabled)

section \<open>The index under a sequence of samples\<close>

lemma decreaseQuality_index:
  "currentQualityIndex (snd (decreaseQuality s)) =
     (if 0 < currentQualityIndex s then currentQualityIndex s - 1 else currentQualityIndex s)"
  by (simp add: decreaseQuality_def Let_def getVariantByQualityIndex_def restrictions_def
      split: option.splits)

lemma increaseQuality_index:
  "currentQualityIndex (snd (increaseQuality s)) =
     (if currentQualityIndex s < catalogSize s - 1
      then currentQualityIndex s + 1 else currentQualityIndex s)"
  by (simp add: increaseQuality_def Let_def getVariantByQualityIndex_def restrictions_def catalogSize_def
      split: option.splits klass.splits)

lemma startMonitoringBuffer_index:
  "currentQualityIndex (snd (startMonitoringBuffer x s)) =
     (if toFixed1 x < lowBufferThreshold s
      then (if 0 < currentQualityIndex s then currentQualityIndex s - 1 else currentQualityIndex s)
      else if toFixed1 x > highBufferThreshold s
      then (if currentQualityIndex s < catalogSize s - 1
            then currentQualityIndex s + 1 else currentQualityIndex s)
      else currentQualityIndex s)"
  by (simp add: startMonitoringBuffer_transfer [of currentQualityIndex]
      chooseVariant_transfer [of currentQualityIndex] decreaseQuality_index increaseQuality_index
      catalogSize_def)

lemma decreaseQuality_size: "catalogSize (snd (decreaseQuality s)) = catalogSize s"
  by (simp add: decreaseQuality_def Let_def getVariantByQualityIndex_def restrictions_def catalogSize_def
      split: option.splits)

lemma increaseQuality_size: "catalogSize (snd (increaseQuality s)) = catalogSize s"
  by (simp add: increaseQuality_def Let_def getVariantByQualityIndex_def restrictions_def catalogSize_def
      split: option.splits klass.splits)

lemma getVariant_size: "catalogSize (snd (getVariantByQualityIndex i s)) = catalogSize s"
  by (simp add: getVariant_snd catalogSize_def)

lemma chooseVariant_size: "catalogSize (snd (chooseVariant s)) = catalogSize s"
proof -
  obtain r t where b: "(if bufferLevel s < lowBufferThreshold s then decreaseQuality s
           else if bufferLevel s > highBufferThreshold s then increaseQuality s
           else (Inr (), s)) = (r, t)"
    by (cases "if bufferLevel s < lowBufferThreshold s then decreaseQuality s
           else if bufferLevel s > highBufferThreshold s then increaseQuality s
           else (Inr (), s)")
  have t: "catalogSize t = catalogSize s"
    using b decreaseQuality_size [of s] increaseQuality_size [of s]
    by (auto split: if_splits)
  have "catalogSize (snd (chooseVariant s)) = catalogSize t"
    unfolding chooseVariant_def b
    by (cases r) (simp_all add: split_beta getVariant_size)
  with t show ?thesis by simp
qed

lemma startMonitoringBuffer_size: "catalogSize (snd (startMonitoringBuffer x s)) = catalogSize s"
proof -
  have "catalogSize (snd (startMonitoringBuffer x s)) =
     catalogSize (snd (chooseVariant (s\<lparr>hostCalls := hostCalls s @ [GetBufferFullness],
                            bufferLevel := toFixed1 x\<rparr>)))"
    by (rule startMonitoringBuffer_transfer) (simp add: catalogSize_def)
  then show ?thesis
    by (simp add: chooseVariant_size) (simp add: catalogSize_def)
qed

lemma step_small:
  "\<bar>currentQualityIndex (snd (startMonitoringBuffer x s)) - currentQualityIndex s\<bar> \<le> 1"
  by (simp add: startMonitoringBuffer_index)

lemma step_within:
  "index_within s \<Longrightarrow> index_within (snd (startMonitoringBuffer x s))"
  by (auto simp add: index_within_def startMonitoringBuffer_index startMonitoringBuffer_size)

lemma feed_single_steps: "single_steps s (feed xs s)"
  by (induction xs arbitrary: s) (simp_all add: step_small)

lemma feed_within: "index_within s \<Longrightarrow> list_all index_within (feed xs s)"
  by (induction xs arbitrary: s) (simp_all add: step_within)

lemma feed_size: "list_all (\<lambda>t. catalogSize t = catalogSize s) (feed xs s)"
proof (induction xs arbitrary: s)
  case Nil
  show ?case by simp
next
  case (Cons x xs)
  from Cons.IH [of "snd (startMonitoringBuffer x s)"] show ?case
    by (simp add: startMonitoringBuffer_size)
qed

text \<open>
  C1, amended. Whatever samples are fed, the index moves by at most 1 in each evaluation
  and the size of the catalog stays. An index that starts in \<open>[0, max(catalogSize - 1, 0)]\<close>
  stays there: in \<open>[0, catalogSize - 1]\<close> when the catalog is not empty (a single variant
  included), and at 0 when the catalog is empty.
\<close>

theorem index_steps_and_range:
  "single_steps s (feed xs s)
   \<and> list_all (\<lambda>t. catalogSize t = catalogSize s) (feed xs s)
   \<and> (index_within s \<longrightarrow> list_all index_within (feed xs s))
   \<and> (index_within s \<and> 0 < catalogSize s \<longrightarrow> list_all in_catalog_range (feed xs s))
   \<and> (index_within s \<and> catalogSize s = 0 \<longrightarrow> list_all (\<lambda>t. currentQualityIndex t = 0) (feed xs s))"
proof -
  have a: "list_all in_catalog_range (feed xs s)" if "index_within s" "0 < catalogSize s"
  proof -
    have "list_all (\<lambda>t. index_within t \<and> catalogSize t = catalogSize s) (feed xs s)"
      using feed_within [OF that(1), of xs] feed_size [of s xs]
      by (simp add: list_all_iff)
    then show ?thesis
      using that(2) by (auto simp add: list_all_iff index_within_def in_catalog_range_def)
  qed
  have b: "list_all (\<lambda>t. currentQualityIndex t = 0) (feed xs s)" if "index_within s" "catalogSize s = 0"
  proof -
    have "list_all (\<lambda>t. index_within t \<and> catalogSize t = catalogSize s) (feed xs s)"
      using feed_within [OF that(1), of xs] feed_size [of s xs]
      by (simp add: list_all_iff)
    then show ?thesis
      using that(2) by (auto simp add: list_all_iff index_within_def)
  qed
  show ?thesis
    using feed_single_steps feed_size feed_within a b by blast
qed

text \<open>
  C1, as stated, fails for the empty catalog: the range \<open>[0, catalogSize - 1]\<close> is then
  empty, and the index of a fresh object is 0 before and after an evaluation.
\<close>

theorem empty_catalog_range_counterexample:
  "elems (videoVariants (snd (constructor First 0))) = []
   \<and> currentQualityIndex (snd (startMonitoringBuffer (1 / 2) (snd (constructor First 0)))) = 0
   \<and> \<not> in_catalog_range (snd (startMonitoringBuffer (1 / 2) (snd (constructor First 0))))"
  by (simp add: run_defs in_catalog_range_def catalogSize_def)

text \<open>
  The session object fed with eight samples (0.26 rounds to 0.3, which is not below the
  threshold; 0.24 rounds to 0.2), and a fresh object, whose catalog is empty.
\<close>

theorem index_steps_and_range_witness:
  "index_within (session First) \<and> 0 < catalogSize (session First)
   \<and> map currentQualityIndex
        (feed [9 / 10, 9 / 10, 9 / 10, 1 / 2, 1 / 10, 26 / 100, 24 / 100, 0] (session First))
       = [1, 2, 2, 2, 1, 1, 0, 0]
   \<and> single_steps (session First)
        (feed [9 / 10, 9 / 10, 9 / 10, 1 / 2, 1 / 10, 26 / 100, 24 / 100, 0] (session First))
   \<and> list_all in_catalog_range
        (feed [9 / 10, 9 / 10, 9 / 10, 1 / 2, 1 / 10, 26 / 100, 24 / 100, 0] (session First))
   \<and> index_within (snd (constructor First 0)) \<and> catalogSize (snd (constructor First 0)) = 0
   \<and> list_all (\<lambda>t. currentQualityIndex t = 0) (feed [9 / 10, 1 / 10] (snd (constructor First 0)))"
proof -
  have h: "index_within (session First)" "0 < catalogSize (session First)"
    by (simp_all add: run_defs index_within_def catalogSize_def)
  have e: "index_within (snd (constructor First 0))" "catalogSize (snd (constructor First 0)) = 0"
    by (simp_all add: run_defs index_within_def catalogSize_def)
  have v: "map currentQualityIndex
        (feed [9 / 10, 9 / 10, 9 / 10, 1 / 2, 1 / 10, 26 / 100, 24 / 100, 0] (session First))
       = [1, 2, 2, 2, 1, 1, 0, 0]"
    by (simp add: run_defs)
  show ?thesis
    using h e v
      index_steps_and_range [of "session First"
        "[9 / 10, 9 / 10, 9 / 10, 1 / 2, 1 / 10, 26 / 100, 24 / 100, 0]"]
      index_steps_and_range [of "snd (constructor First 0)" "[9 / 10, 1 / 10]"]
    by blast
qed

section \<open>One step down, one step up\<close>

lemma decreaseQuality_steps:
  assumes "0 < currentQualityIndex s"
    and "currentQualityIndex s \<le> int (length (elems (videoVariants s)))"
    and "config_m s = Some c"
  shows "decreaseQuality s =
    (Inr (), s\<lparr>currentQualityIndex := currentQualityIndex s - 1,
              videoVariants := (videoVariants s)\<lparr>elems := sort_key bandwidth (elems (videoVariants s))\<rparr>,
              config_m := Some (c\<lparr>cfg_restrictions := (cfg_restrictions c)\<lparr>maxBandwidth :=
                 bandwidth (sort_key bandwidth (elems (videoVariants s)) ! nat (currentQualityIndex s - 1))\<rparr>\<rparr>)\<rparr>)"
  using assms
  by (simp add: decreaseQuality_def Let_def getVariantByQualityIndex_def restrictions_def)

lemma increaseQuality_steps:
  assumes "0 \<le> currentQualityIndex s"
    and "currentQualityIndex s < int (length (elems (videoVariants s))) - 1"
    and "config_m s = Some c"
  shows "increaseQuality s =
    (Inr (), s\<lparr>currentQualityIndex := currentQualityIndex s + 1,
              videoVariants := (videoVariants s)\<lparr>elems := sort_key bandwidth (elems (videoVariants s))\<rparr>,
              config_m := Some (c\<lparr>cfg_restrictions := (cfg_restrictions c)\<lparr>maxBandwidth :=
                 bandwidth (sort_key bandwidth (elems (videoVariants s)) ! nat (currentQualityIndex s + 1))\<rparr>,
                 restrictToScreenSize := (case klass s of First \<Rightarrow> restrictToScreenSize c | Second \<Rightarrow> True)\<rparr>)\<rparr>)"
  using assms
  by (cases "klass s") (simp_all add: increaseQuality_def Let_def getVariantByQualityIndex_def restrictions_def)

text \<open>Without a configuration a step throws, after it has moved the index.\<close>

lemma decreaseQuality_unconfigured:
  assumes "0 < currentQualityIndex s" and "config_m s = None"
  shows "fst (decreaseQuality s) = Inl TypeError"
    and "config_m (snd (decreaseQuality s)) = None"
  using assms
  by (simp_all add: decreaseQuality_def Let_def getVariantByQualityIndex_def restrictions_def)

lemma increaseQuality_unconfigured:
  assumes "currentQualityIndex s < int (length (elems (videoVariants s))) - 1"
    and "config_m s = None"
  shows "fst (increaseQuality s) = Inl TypeError"
    and "config_m (snd (increaseQuality s)) = None"
  using assms
  by (simp_all add: increaseQuality_def Let_def getVariantByQualityIndex_def restrictions_def)

lemma decreaseQuality_bufferLevel: "bufferLevel (snd (decreaseQuality s)) = bufferLevel s"
  by (simp add: decreaseQuality_def Let_def getVariantByQualityIndex_def restrictions_def
      split: option.splits)

lemma increaseQuality_bufferLevel: "bufferLevel (snd (increaseQuality s)) = bufferLevel s"
  by (simp add: increaseQuality_def Let_def getVariantByQualityIndex_def restrictions_def
      split: option.splits klass.splits)

lemma startMonitoringBuffer_bufferLevel:
  "bufferLevel (snd (startMonitoringBuffer x s)) = toFixed1 x"
  by (simp add: startMonitoringBuffer_transfer [of bufferLevel] chooseVariant_transfer [of bufferLevel]
      decreaseQuality_bufferLevel increaseQuality_bufferLevel)

text \<open>An exception of the step is the exception of the evaluation.\<close>

lemma startMonitoringBuffer_raises:
  assumes "(if toFixed1 x < lowBufferThreshold s
            then decreaseQuality (s\<lparr>hostCalls := hostCalls s @ [GetBufferFullness],
                                    bufferLevel := toFixed1 x\<rparr>)
            else if highBufferThreshold s < toFixed1 x
            then increaseQuality (s\<lparr>hostCalls := hostCalls s @ [GetBufferFullness],
                                    bufferLevel := toFixed1 x\<rparr>)
            else (Inr (), s\<lparr>hostCalls := hostCalls s @ [GetBufferFullness],
                             bufferLevel := toFixed1 x\<rparr>)) = (Inl e, t)"
  shows "startMonitoringBuffer x s = (Inl e, t)"
proof -
  have "chooseVariant (s\<lparr>hostCalls := hostCalls s @ [GetBufferFullness],
                          bufferLevel := toFixed1 x\<rparr>) = (Inl e, t)"
    using assms
    by (cases "toFixed1 x < lowBufferThreshold s"; cases "highBufferThreshold s < toFixed1 x")
      (simp_all add: chooseVariant_def)
  from startMonitoringBuffer_cases [OF this] show ?thesis
    by simp
qed

text \<open>The steps with a configuration to write to.\<close>

lemma steps_down_configured:
  assumes "toFixed1 fullness < lowBufferThreshold s"
    and "0 < currentQualityIndex s"
    and "currentQualityIndex s \<le> int (length (elems (videoVariants s)))"
    and "config_m s = Some c"
  shows "maxBandwidth_of (snd (startMonitoringBuffer fullness s)) =
        Some (bandwidth (sort_key bandwidth (elems (videoVariants s)) ! nat (currentQualityIndex s - 1)))"
proof -
  define s1 where
    "s1 = s\<lparr>hostCalls := hostCalls s @ [GetBufferFullness], bufferLevel := toFixed1 fullness\<rparr>"
  have low: "bufferLevel s1 < lowBufferThreshold s1"
    using assms(1) by (simp add: s1_def)
  have dec: "decreaseQuality s1 =
    (Inr (), s1\<lparr>currentQualityIndex := currentQualityIndex s1 - 1,
              videoVariants := (videoVariants s1)\<lparr>elems := sort_key bandwidth (elems (videoVariants s1))\<rparr>,
              config_m := Some (c\<lparr>cfg_restrictions := (cfg_restrictions c)\<lparr>maxBandwidth :=
                 bandwidth (sort_key bandwidth (elems (videoVariants s1)) ! nat (currentQualityIndex s1 - 1))\<rparr>\<rparr>)\<rparr>)"
    by (rule decreaseQuality_steps) (use assms in \<open>simp_all add: s1_def\<close>)
  show ?thesis
    using low
    by (simp add: startMonitoringBuffer_transfer [of maxBandwidth_of]
        chooseVariant_transfer [of maxBandwidth_of] s1_def [symmetric] dec)
      (simp add: s1_def)
qed

lemma steps_up_configured:
  assumes "highBufferThreshold s < toFixed1 fullness"
    and "\<not> toFixed1 fullness < lowBufferThreshold s"
    and "0 \<le> currentQualityIndex s"
    and "currentQualityIndex s < int (length (elems (videoVariants s))) - 1"
    and "config_m s = Some c"
  shows "maxBandwidth_of (snd (startMonitoringBuffer fullness s)) =
        Some (bandwidth (sort_key bandwidth (elems (videoVariants s)) ! nat (currentQualityIndex s + 1)))"
    and "restrictToScreenSize_of (snd (startMonitoringBuffer fullness s)) =
        Some (case klass s of First \<Rightarrow> restrictToScreenSize c | Second \<Rightarrow> True)"
proof -
  define s1 where
    "s1 = s\<lparr>hostCalls := hostCalls s @ [GetBufferFullness], bufferLevel := toFixed1 fullness\<rparr>"
  have high: "\<not> bufferLevel s1 < lowBufferThreshold s1" "highBufferThreshold s1 < bufferLevel s1"
    using assms(1,2) by (simp_all add: s1_def)
  have inc: "increaseQuality s1 =
    (Inr (), s1\<lparr>currentQualityIndex := currentQualityIndex s1 + 1,
              videoVariants := (videoVariants s1)\<lparr>elems := sort_key bandwidth (elems (videoVariants s1))\<rparr>,
              config_m := Some (c\<lparr>cfg_restrictions := (cfg_restrictions c)\<lparr>maxBandwidth :=
                 bandwidth (sort_key bandwidth (elems (videoVariants s1)) ! nat (currentQualityIndex s1 + 1))\<rparr>,
                 restrictToScreenSize := (case klass s1 of First \<Rightarrow> restrictToScreenSize c | Second \<Rightarrow> True)\<rparr>)\<rparr>)"
    by (rule increaseQuality_steps) (use assms in \<open>simp_all add: s1_def\<close>)
  show "maxBandwidth_of (snd (startMonitoringBuffer fullness s)) =
        Some (bandwidth (sort_key bandwidth (elems (videoVariants s)) ! nat (currentQualityIndex s + 1)))"
    using high
    by (simp add: startMonitoringBuffer_transfer [of maxBandwidth_of]
        chooseVariant_transfer [of maxBandwidth_of] s1_def [symmetric] inc)
      (simp add: s1_def)
  show "restrictToScreenSize_of (snd (startMonitoringBuffer fullness s)) =
        Some (case klass s of First \<Rightarrow> restrictToScreenSize c | Second \<Rightarrow> True)"
    using high
    by (simp add: startMonitoringBuffer_transfer [of restrictToScreenSize_of]
        chooseVariant_transfer [of restrictToScreenSize_of] s1_def [symmetric] inc)
      (simp add: s1_def)
qed

text \<open>
  C2, as stated, fails: the index goes down whenever the level is below the threshold and
  the index above 0, but the bandwidth is written only if there is a configuration to
  write to and a variant at the new index. The object without a configuration, moved up
  to index 1, goes down to index 0 on a sample of 0.1, throws, and has no \<open>maxBandwidth\<close>
  (the variant at index 0 has bandwidth 100). The stopped session at index 1 has an empty
  catalog: it goes down to index 0, finds no variant there, throws, and its
  \<open>maxBandwidth\<close> is what it was.
\<close>

theorem low_buffer_no_write_counterexample:
  "toFixed1 (1 / 10) < lowBufferThreshold unconfigured_up
   \<and> currentQualityIndex unconfigured_up = 1
   \<and> currentQualityIndex (snd (startMonitoringBuffer (1 / 10) unconfigured_up)) = 0
   \<and> fst (startMonitoringBuffer (1 / 10) unconfigured_up) = Inl TypeError
   \<and> fst (getVariantByQualityIndex 0 unconfigured_up) = Some \<lparr>vid = 0, bandwidth = 100\<rparr>
   \<and> maxBandwidth_of (snd (startMonitoringBuffer (1 / 10) unconfigured_up)) \<noteq> Some 100
   \<and> toFixed1 (1 / 10) < lowBufferThreshold (stop played)
   \<and> currentQualityIndex (stop played) = 1
   \<and> currentQualityIndex (snd (startMonitoringBuffer (1 / 10) (stop played))) = 0
   \<and> fst (startMonitoringBuffer (1 / 10) (stop played)) = Inl TypeError
   \<and> fst (getVariantByQualityIndex 0 (stop played)) = None
   \<and> maxBandwidth_of (snd (startMonitoringBuffer (1 / 10) (stop played)))
       = maxBandwidth_of (stop played)"
  by (simp add: unconfigured_up_def unconfigured_def played_def stop_def run_defs
      maxBandwidth_of_def)

text \<open>
  C2, amended. When an evaluation finds the buffer level (the sample rounded to one
  decimal) strictly below \<open>lowBufferThreshold\<close> and the index above 0, it lowers the index
  by exactly 1. If a configuration has been set and the new index is an index of the
  catalog (the index was at most the length of the catalog), it then sets
  \<open>restrictions.maxBandwidth\<close> to the bandwidth of the variant at the new index of the
  catalog in ascending order of bandwidth, the variant that a lookup at the new index gives.
  If no configuration has been set, the evaluation throws a TypeError after it has lowered
  the index, and there is still no configuration.
\<close>

theorem low_buffer_steps_down:
  assumes "toFixed1 fullness < lowBufferThreshold s"
    and "0 < currentQualityIndex s"
  shows "bufferLevel (snd (startMonitoringBuffer fullness s)) = toFixed1 fullness
    \<and> currentQualityIndex (snd (startMonitoringBuffer fullness s)) = currentQualityIndex s - 1
    \<and> (config_m s = Some c \<and> currentQualityIndex s \<le> catalogSize s \<longrightarrow>
         maxBandwidth_of (snd (startMonitoringBuffer fullness s)) =
           Some (bandwidth (sort_key bandwidth (elems (videoVariants s))
                   ! nat (currentQualityIndex s - 1)))
         \<and> maxBandwidth_of (snd (startMonitoringBuffer fullness s)) =
             map_option bandwidth (fst (getVariantByQualityIndex (currentQualityIndex s - 1) s)))
    \<and> (config_m s = None \<longrightarrow>
         fst (startMonitoringBuffer fullness s) = Inl TypeError
         \<and> config_m (snd (startMonitoringBuffer fullness s)) = None)"
proof -
  define s1 where
    "s1 = s\<lparr>hostCalls := hostCalls s @ [GetBufferFullness], bufferLevel := toFixed1 fullness\<rparr>"
  have idx: "currentQualityIndex (snd (startMonitoringBuffer fullness s)) = currentQualityIndex s - 1"
    using assms by (simp add: startMonitoringBuffer_index)
  have written: "maxBandwidth_of (snd (startMonitoringBuffer fullness s)) =
           Some (bandwidth (sort_key bandwidth (elems (videoVariants s))
                   ! nat (currentQualityIndex s - 1)))
         \<and> maxBandwidth_of (snd (startMonitoringBuffer fullness s)) =
             map_option bandwidth (fst (getVariantByQualityIndex (currentQualityIndex s - 1) s))"
    if c: "config_m s = Some c" and r: "currentQualityIndex s \<le> catalogSize s"
  proof -
    have r': "currentQualityIndex s \<le> int (length (elems (videoVariants s)))"
      using r by (simp add: catalogSize_def)
    have "fst (getVariantByQualityIndex (currentQualityIndex s - 1) s) =
        Some (sort_key bandwidth (elems (videoVariants s)) ! nat (currentQualityIndex s - 1))"
      using assms(2) r' by (simp add: getVariant_fst)
    with steps_down_configured [OF assms(1,2) r' c] show ?thesis
      by simp
  qed
  have thrown: "fst (startMonitoringBuffer fullness s) = Inl TypeError
         \<and> config_m (snd (startMonitoringBuffer fullness s)) = None"
    if n: "config_m s = None"
  proof -
    have p: "0 < currentQualityIndex s1" "config_m s1 = None"
      using assms(2) n by (simp_all add: s1_def)
    obtain u t where d: "decreaseQuality s1 = (u, t)"
      by (cases "decreaseQuality s1")
    have u: "u = Inl TypeError" and t: "config_m t = None"
      using decreaseQuality_unconfigured [OF p] by (simp_all add: d)
    have "startMonitoringBuffer fullness s = (Inl TypeError, t)"
      by (rule startMonitoringBuffer_raises) (use assms(1) d u in \<open>simp add: s1_def\<close>)
    with t show ?thesis
      by simp
  qed
  show ?thesis
    using idx written thrown startMonitoringBuffer_bufferLevel [of fullness s]
    by blast
qed

text \<open>
  The example of the spec: catalog 100, 500, 1000, index 2, sample 0.1. And the object
  without a configuration at index 1.
\<close>

theorem low_buffer_steps_down_witness:
  "toFixed1 (1 / 10) < lowBufferThreshold ((session First)\<lparr>currentQualityIndex := 2\<rparr>)
   \<and> 0 < currentQualityIndex ((session First)\<lparr>currentQualityIndex := 2\<rparr>)
   \<and> config_m ((session First)\<lparr>currentQualityIndex := 2\<rparr>) = Some config0
   \<and> currentQualityIndex ((session First)\<lparr>currentQualityIndex := 2\<rparr>)
       \<le> catalogSize ((session First)\<lparr>currentQualityIndex := 2\<rparr>)
   \<and> currentQualityIndex
        (snd (startMonitoringBuffer (1 / 10) ((session First)\<lparr>currentQualityIndex := 2\<rparr>))) = 1
   \<and> maxBandwidth_of
        (snd (startMonitoringBuffer (1 / 10) ((session First)\<lparr>currentQualityIndex := 2\<rparr>))) = Some 500
   \<and> toFixed1 (1 / 10) < lowBufferThreshold unconfigured_up
   \<and> 0 < currentQualityIndex unconfigured_up
   \<and> config_m unconfigured_up = None
   \<and> currentQualityIndex (snd (startMonitoringBuffer (1 / 10) unconfigured_up)) = 0
   \<and> fst (startMonitoringBuffer (1 / 10) unconfigured_up) = Inl TypeError"
proof -
  let ?s = "(session First)\<lparr>currentQualityIndex := 2\<rparr>"
  have h1: "toFixed1 (1 / 10) < lowBufferThreshold ?s"
    by (simp add: run_defs)
  have h2: "0 < currentQualityIndex ?s"
    by simp
  have h3: "currentQualityIndex ?s \<le> catalogSize ?s"
    by (simp add: run_defs catalogSize_def)
  have h4: "config_m ?s = Some config0"
    by (simp add: session_def configure_def)
  have srt: "sort_key bandwidth (elems (videoVariants (session First))) = elems catalog3"
    by (simp add: run_defs)
  have u1: "toFixed1 (1 / 10) < lowBufferThreshold unconfigured_up"
    by (simp add: unconfigured_up_def unconfigured_def run_defs)
  have u2: "0 < currentQualityIndex unconfigured_up" "currentQualityIndex unconfigured_up = 1"
    by (simp_all add: unconfigured_up_def unconfigured_def run_defs)
  have u3: "config_m unconfigured_up = None"
    by (simp add: unconfigured_up_def unconfigured_def run_defs)
  show ?thesis
    using h1 h3 h4 u1 u2 u3
      low_buffer_steps_down [OF h1 h2, of config0]
      low_buffer_steps_down [OF u1 u2(1), of config0]
    by (simp add: srt) (simp add: catalog3_def)
qed

text \<open>
  C3, as stated, fails for the first class body: its \<open>increaseQuality\<close> does not touch
  \<open>restrictToScreenSize\<close>. From index 0 a sample of 0.9 moves the object of the first body
  to index 1 with \<open>maxBandwidth\<close> 500, and \<open>restrictToScreenSize\<close> is still false. It fails
  also where there is no configuration to write to: the object without a configuration
  moves to index 1, throws, and has neither \<open>maxBandwidth\<close> nor \<open>restrictToScreenSize\<close>.
\<close>

theorem high_buffer_first_body_counterexample:
  "highBufferThreshold (session First) < toFixed1 (9 / 10)
   \<and> currentQualityIndex (session First) = 0
   \<and> currentQualityIndex (snd (startMonitoringBuffer (9 / 10) (session First))) = 1
   \<and> maxBandwidth_of (snd (startMonitoringBuffer (9 / 10) (session First))) = Some 500
   \<and> restrictToScreenSize_of (snd (startMonitoringBuffer (9 / 10) (session First))) \<noteq> Some True
   \<and> highBufferThreshold unconfigured < toFixed1 (9 / 10)
   \<and> currentQualityIndex unconfigured = 0
   \<and> currentQualityIndex (snd (startMonitoringBuffer (9 / 10) unconfigured)) = 1
   \<and> fst (startMonitoringBuffer (9 / 10) unconfigured) = Inl TypeError
   \<and> maxBandwidth_of (snd (startMonitoringBuffer (9 / 10) unconfigured)) \<noteq> Some 500
   \<and> restrictToScreenSize_of (snd (startMonitoringBuffer (9 / 10) unconfigured)) \<noteq> Some True"
  by (simp add: unconfigured_def run_defs maxBandwidth_of_def restrictToScreenSize_of_def)

text \<open>
  C3, amended. When an evaluation finds the buffer level (the sample rounded to one
  decimal) strictly above \<open>highBufferThreshold\<close> and not below \<open>lowBufferThreshold\<close> (which
  is tested first), and the index below the last index of the catalog, it raises the index
  by exactly 1. If a configuration has been set and the index was not negative (so that
  the new index is an index of the catalog), it then sets \<open>restrictions.maxBandwidth\<close> to
  the bandwidth of the variant at the new index of the catalog in ascending order of
  bandwidth; the second class body also sets \<open>restrictToScreenSize\<close> to true, the first
  leaves it as it was. If no configuration has been set, the evaluation throws a TypeError
  after it has raised the index, and there is still no configuration.
\<close>

theorem high_buffer_steps_up:
  assumes "highBufferThreshold s < toFixed1 fullness"
    and "\<not> toFixed1 fullness < lowBufferThreshold s"
    and "currentQualityIndex s < catalogSize s - 1"
  shows "currentQualityIndex (snd (startMonitoringBuffer fullness s)) = currentQualityIndex s + 1
    \<and> (config_m s = Some c \<and> 0 \<le> currentQualityIndex s \<longrightarrow>
         maxBandwidth_of (snd (startMonitoringBuffer fullness s)) =
           Some (bandwidth (sort_key bandwidth (elems (videoVariants s))
                   ! nat (currentQualityIndex s + 1)))
         \<and> restrictToScreenSize_of (snd (startMonitoringBuffer fullness s)) =
             Some (case klass s of First \<Rightarrow> restrictToScreenSize c | Second \<Rightarrow> True))
    \<and> (config_m s = None \<longrightarrow>
         fst (startMonitoringBuffer fullness s) = Inl TypeError
         \<and> config_m (snd (startMonitoringBuffer fullness s)) = None)"
proof -
  define s1 where
    "s1 = s\<lparr>hostCalls := hostCalls s @ [GetBufferFullness], bufferLevel := toFixed1 fullness\<rparr>"
  have below: "currentQualityIndex s < int (length (elems (videoVariants s))) - 1"
    using assms(3) by (simp add: catalogSize_def)
  have idx: "currentQualityIndex (snd (startMonitoringBuffer fullness s)) = currentQualityIndex s + 1"
    using assms by (simp add: startMonitoringBuffer_index)
  have written: "maxBandwidth_of (snd (startMonitoringBuffer fullness s)) =
           Some (bandwidth (sort_key bandwidth (elems (videoVariants s))
                   ! nat (currentQualityIndex s + 1)))
         \<and> restrictToScreenSize_of (snd (startMonitoringBuffer fullness s)) =
             Some (case klass s of First \<Rightarrow> restrictToScreenSize c | Second \<Rightarrow> True)"
    if c: "config_m s = Some c" and p: "0 \<le> currentQualityIndex s"
    using steps_up_configured [OF assms(1,2) p below c] by simp
  have thrown: "fst (startMonitoringBuffer fullness s) = Inl TypeError
         \<and> config_m (snd (startMonitoringBuffer fullness s)) = None"
    if n: "config_m s = None"
  proof -
    have p: "currentQualityIndex s1 < int (length (elems (videoVariants s1))) - 1"
      "config_m s1 = None"
      using below n by (simp_all add: s1_def)
    obtain u t where d: "increaseQuality s1 = (u, t)"
      by (cases "increaseQuality s1")
    have u: "u = Inl TypeError" and t: "config_m t = None"
      using increaseQuality_unconfigured [OF p] by (simp_all add: d)
    have "startMonitoringBuffer fullness s = (Inl TypeError, t)"
      by (rule startMonitoringBuffer_raises) (use assms(1,2) d u in \<open>simp add: s1_def\<close>)
    with t show ?thesis
      by simp
  qed
  show ?thesis
    using idx written thrown
    by blast
qed

text \<open>
  The sessions of the two class bodies at index 0 with a sample of 0.9, and the object
  without a configuration.
\<close>

theorem high_buffer_steps_up_witness:
  "highBufferThreshold (session Second) < toFixed1 (9 / 10)
   \<and> \<not> toFixed1 (9 / 10) < lowBufferThreshold (session Second)
   \<and> currentQualityIndex (session Second) < catalogSize (session Second) - 1
   \<and> config_m (session Second) = Some config0 \<and> 0 \<le> currentQualityIndex (session Second)
   \<and> currentQualityIndex (snd (startMonitoringBuffer (9 / 10) (session Second))) = 1
   \<and> maxBandwidth_of (snd (startMonitoringBuffer (9 / 10) (session Second))) = Some 500
   \<and> restrictToScreenSize_of (snd (startMonitoringBuffer (9 / 10) (session Second))) = Some True
   \<and> restrictToScreenSize_of (snd (startMonitoringBuffer (9 / 10) (session First))) = Some False
   \<and> config_m unconfigured = None
   \<and> currentQualityIndex (snd (startMonitoringBuffer (9 / 10) unconfigured)) = 1
   \<and> fst (startMonitoringBuffer (9 / 10) unconfigured) = Inl TypeError"
proof -
  have h: "highBufferThreshold (session k) < toFixed1 (9 / 10)"
    "\<not> toFixed1 (9 / 10) < lowBufferThreshold (session k)"
    "currentQualityIndex (session k) < catalogSize (session k) - 1"
    "config_m (session k) = Some config0" "0 \<le> currentQualityIndex (session k)"
    "klass (session k) = k" "currentQualityIndex (session k) = 0"
    "sort_key bandwidth (elems (videoVariants (session k))) = elems catalog3" for k
    by (simp_all add: run_defs catalogSize_def)
  have u: "highBufferThreshold unconfigured < toFixed1 (9 / 10)"
    "\<not> toFixed1 (9 / 10) < lowBufferThreshold unconfigured"
    "currentQualityIndex unconfigured < catalogSize unconfigured - 1"
    "config_m unconfigured = None" "currentQualityIndex unconfigured = 0"
    by (simp_all add: unconfigured_def run_defs catalogSize_def)
  show ?thesis
    using h [of Second] h [of First] u
      high_buffer_steps_up [OF h(1,2,3), of Second config0]
      high_buffer_steps_up [OF h(1,2,3), of First config0]
      high_buffer_steps_up [OF u(1,2,3), of config0]
    by (simp add: config0_def) (simp add: catalog3_def)
qed

section \<open>Stopping, the empty catalog and the order of the catalog\<close>

lemma stop_idem: "stop (stop s) = stop s"
  by (simp add: stop_def Let_def split: option.splits)

lemma stop_fields:
  "intervals (stop s) = intervals s"
  "switchQualityCallback (stop s) = None"
  "videoVariants (stop s) = \<lparr>ref = OwnArray, elems = []\<rparr>"
  "currentQualityIndex (stop s) = currentQualityIndex s"
  "switchCalls (stop s) = switchCalls s"
  by (simp_all add: stop_def Let_def switchCalls_def split: option.splits)

lemma empty_catalog_lookup:
  assumes "elems (videoVariants s) = []"
  shows "getVariantByQualityIndex i s = (None, s\<lparr>videoVariants := (videoVariants s)\<lparr>elems := []\<rparr>\<rparr>)"
  using assms by (simp add: getVariantByQualityIndex_def)

lemma empty_catalog_chooseVariant:
  assumes "elems (videoVariants s) = []"
  shows "fst (chooseVariant s) \<noteq> Inr (Some v)"
    and "elems (videoVariants (snd (chooseVariant s))) = []"
  using assms
  by (auto simp add: chooseVariant_def decreaseQuality_def increaseQuality_def
      empty_catalog_lookup Let_def)

lemma empty_catalog_evaluation:
  assumes "elems (videoVariants s) = []"
  shows "hostCalls (snd (startMonitoringBuffer x s)) = hostCalls s @ [GetBufferFullness]"
    and "elems (videoVariants (snd (startMonitoringBuffer x s))) = []"
proof -
  define s1 where
    "s1 = s\<lparr>hostCalls := hostCalls s @ [GetBufferFullness], bufferLevel := toFixed1 x\<rparr>"
  obtain r t where rt: "chooseVariant s1 = (r, t)"
    by (cases "chooseVariant s1")
  have e1: "elems (videoVariants s1) = []"
    using assms by (simp add: s1_def)
  have r: "r \<noteq> Inr (Some v)" for v
    using empty_catalog_chooseVariant(1) [OF e1, of v] by (simp add: rt)
  have t: "elems (videoVariants t) = []"
    using empty_catalog_chooseVariant(2) [OF e1] by (simp add: rt)
  have "hostCalls t = hostCalls (snd (chooseVariant s1))"
    by (simp add: rt)
  also have "\<dots> = hostCalls s1"
    by (simp add: chooseVariant_transfer [of hostCalls] decreaseQuality_def increaseQuality_def
        getVariantByQualityIndex_def restrictions_def Let_def split: option.splits klass.splits)
  finally have h: "hostCalls t = hostCalls s @ [GetBufferFullness]"
    by (simp add: s1_def)
  have "startMonitoringBuffer x s = (case r of Inl e \<Rightarrow> (Inl e, t) | Inr u \<Rightarrow> (Inr (), t))"
    unfolding startMonitoringBuffer_cases [OF rt [unfolded s1_def]]
    using r by (auto split: sum.splits option.splits)
  then have "snd (startMonitoringBuffer x s) = t"
    by (simp split: sum.splits)
  with h t show "hostCalls (snd (startMonitoringBuffer x s)) = hostCalls s @ [GetBufferFullness]"
    and "elems (videoVariants (snd (startMonitoringBuffer x s))) = []"
    by simp_all
qed

text \<open>With an empty catalog and the index at 0 an evaluation selects nothing, throws
  nothing and keeps the index.\<close>

lemma empty_catalog_index0:
  assumes "elems (videoVariants s) = []" and "currentQualityIndex s = 0"
  shows "fst (startMonitoringBuffer x s) = Inr ()"
    and "currentQualityIndex (snd (startMonitoringBuffer x s)) = 0"
    and "fst (chooseVariant s) = Inr None"
  using assms
  by (simp_all add: startMonitoringBuffer_def chooseVariant_def decreaseQuality_def
      increaseQuality_def getVariantByQualityIndex_def Let_def)

lemma empty_catalog_feed:
  assumes "elems (videoVariants s) = []"
  shows "list_all (\<lambda>t. switchCalls t = switchCalls s \<and> elems (videoVariants t) = []) (feed xs s)"
  using assms
proof (induction xs arbitrary: s)
  case Nil
  show ?case by simp
next
  case (Cons x xs)
  let ?t = "snd (startMonitoringBuffer x s)"
  have t: "elems (videoVariants ?t) = []" "switchCalls ?t = switchCalls s"
    using Cons.prems by (simp_all add: empty_catalog_evaluation switchCalls_def)
  from Cons.IH [OF t(1)] t show ?case
    by simp
qed

lemma monitorTick_switchCalls: "switchCalls (snd (monitorTick now s)) = switchCalls s"
  by (simp add: monitorTick_def Let_def switchCalls_def split: klass.splits)

text \<open>
  C4, as stated, fails: \<open>stop\<close> does not cancel the timer that the constructor registered
  with \<open>setInterval\<close> (the handle was never kept), so the timer's callback still runs after
  \<open>stop()\<close>, also after a second \<open>stop()\<close>, and reports to the host.
\<close>

theorem stop_keeps_timer_counterexample:
  "intervals (stop (session Second)) = [5000]
   \<and> timerTick 0 (stop (session Second)) \<noteq> None
   \<and> timerTick 0 (stop (session Second)) = Some (monitorTick 0 (stop (session Second)))
   \<and> hostCalls (snd (monitorTick 0 (stop (session Second))))
       = hostCalls (stop (session Second)) @ [Report]
   \<and> timerTick 0 (stop (stop (session First))) \<noteq> None"
  by (simp add: timerTick_def monitorTick_def stop_def run_defs)

text \<open>
  C4, amended. \<open>stop\<close> is idempotent. It clears the switch callback and replaces the
  catalog by an empty array, so that the evaluations of any samples fed after it invoke the
  switch callback not once, and neither does the timer's callback. It leaves the registered
  timers as they are: a timer that ticked before \<open>stop()\<close> ticks after it.
\<close>

theorem stop_idempotent_no_switch:
  "stop (stop s) = stop s
   \<and> switchQualityCallback (stop s) = None
   \<and> videoVariants (stop s) = \<lparr>ref = OwnArray, elems = []\<rparr>
   \<and> list_all (\<lambda>t. switchCalls t = switchCalls s) (feed xs (stop s))
   \<and> switchCalls (snd (monitorTick now (stop s))) = switchCalls s
   \<and> intervals (stop s) = intervals s
   \<and> timerTick now (stop s) = (if intervals s = [] then None else Some (monitorTick now (stop s)))"
proof -
  have "elems (videoVariants (stop s)) = []"
    by (simp add: stop_fields)
  from empty_catalog_feed [OF this, of xs]
  have "list_all (\<lambda>t. switchCalls t = switchCalls s) (feed xs (stop s))"
    by (simp add: list_all_iff stop_fields)
  then show ?thesis
    by (simp add: stop_idem stop_fields monitorTick_switchCalls timerTick_def)
qed

text \<open>
  C6 at an input where the code departs from it. The session played up to index 1 and was
  stopped: \<open>stop\<close> empties the catalog and keeps the index. An evaluation with an empty
  buffer then runs \<open>decreaseQuality\<close>, which lowers the index to 0 and reads \<open>.bandwidth\<close> of
  the \<open>undefined\<close> that the lookup in the empty catalog gives: a TypeError, and a changed
  index, where C6 has no selection, no error and the index unchanged.
\<close>

theorem empty_catalog_low_buffer_raises:
  "currentQualityIndex played = 1
   \<and> elems (videoVariants (stop played)) = []
   \<and> currentQualityIndex (stop played) = 1
   \<and> fst (startMonitoringBuffer 0 (stop played)) = Inl TypeError
   \<and> currentQualityIndex (snd (startMonitoringBuffer 0 (stop played))) = 0
   \<and> fst (chooseVariant ((stop played)\<lparr>bufferLevel := 0\<rparr>)) = Inl TypeError"
  by (simp add: played_def stop_def run_defs)

text \<open>
  C5, as stated, fails: a lookup sorts the array object that \<open>setVariants\<close> stored, in
  place. The host's array 1 holds the bandwidths 500, 1000, 100 when it is registered and
  100, 500, 1000 after one lookup, with no \<open>setVariants\<close> in between.
\<close>

theorem sort_in_place_counterexample:
  "ref (videoVariants (setVariants catalog_unsorted (session First))) = HostArray 1
   \<and> ref (videoVariants (snd (getVariantByQualityIndex 0
        (setVariants catalog_unsorted (session First))))) = HostArray 1
   \<and> elems (videoVariants (setVariants catalog_unsorted (session First)))
       = [\<lparr>vid = 0, bandwidth = 500\<rparr>, \<lparr>vid = 1, bandwidth = 1000\<rparr>, \<lparr>vid = 2, bandwidth = 100\<rparr>]
   \<and> elems (videoVariants (snd (getVariantByQualityIndex 0
        (setVariants catalog_unsorted (session First)))))
       = [\<lparr>vid = 2, bandwidth = 100\<rparr>, \<lparr>vid = 0, bandwidth = 500\<rparr>, \<lparr>vid = 1, bandwidth = 1000\<rparr>]"
  by (simp add: catalog_unsorted_def run_defs)

lemma sorted_first_last:
  assumes "sorted (map f xs)" and "v \<in> set xs"
  shows "f (xs ! 0) \<le> f v" and "f v \<le> f (xs ! (length xs - 1))"
proof -
  from assms(2) obtain k where k: "k < length xs" "xs ! k = v"
    by (auto simp add: in_set_conv_nth)
  have pos: "0 < length xs"
    using k(1) by (cases xs) simp_all
  have at0: "map f xs ! 0 = f (xs ! 0)"
    using pos by (rule nth_map)
  have atk: "map f xs ! k = f v"
    using k by simp
  have atl: "map f xs ! (length xs - 1) = f (xs ! (length xs - 1))"
    using pos by (intro nth_map) simp
  have "map f xs ! 0 \<le> map f xs ! k"
    using assms(1) k(1) by (intro sorted_nth_mono) simp_all
  then show "f (xs ! 0) \<le> f v"
    by (simp only: at0 atk)
  have "map f xs ! k \<le> map f xs ! (length xs - 1)"
    using assms(1) k(1) by (intro sorted_nth_mono) simp_all
  then show "f v \<le> f (xs ! (length xs - 1))"
    by (simp only: atk atl)
qed

text \<open>
  C5, amended. \<open>setVariants\<close> replaces the catalog wholesale, by the array it is given.
  Every lookup by rank index first sorts that same array object in place, ascending by
  bandwidth: the array holds the same variants as before, in order of bandwidth, and the
  lookup reads this order. So index 0 gives a variant of lowest bandwidth and index
  \<open>length - 1\<close> one of highest bandwidth, and an index outside the array gives \<open>undefined\<close>.
\<close>

theorem catalog_sorted_at_lookup:
  "videoVariants (setVariants a s) = a
   \<and> ref (videoVariants (snd (getVariantByQualityIndex i s))) = ref (videoVariants s)
   \<and> elems (videoVariants (snd (getVariantByQualityIndex i s)))
       = sort_key bandwidth (elems (videoVariants s))
   \<and> mset (elems (videoVariants (snd (getVariantByQualityIndex i s))))
       = mset (elems (videoVariants s))
   \<and> sorted (map bandwidth (elems (videoVariants (snd (getVariantByQualityIndex i s)))))
   \<and> fst (getVariantByQualityIndex i s)
       = (if 0 \<le> i \<and> i < catalogSize s
          then Some (elems (videoVariants (snd (getVariantByQualityIndex i s))) ! nat i)
          else None)
   \<and> (\<forall>v \<in> set (elems (videoVariants s)).
        \<exists>lo hi. fst (getVariantByQualityIndex 0 s) = Some lo
          \<and> fst (getVariantByQualityIndex (catalogSize s - 1) s) = Some hi
          \<and> bandwidth lo \<le> bandwidth v \<and> bandwidth v \<le> bandwidth hi)"
proof -
  let ?xs = "sort_key bandwidth (elems (videoVariants s))"
  have srt: "sorted (map bandwidth ?xs)"
    by (rule sorted_sort_key)
  have ends: "\<exists>lo hi. fst (getVariantByQualityIndex 0 s) = Some lo
          \<and> fst (getVariantByQualityIndex (catalogSize s - 1) s) = Some hi
          \<and> bandwidth lo \<le> bandwidth v \<and> bandwidth v \<le> bandwidth hi"
    if v: "v \<in> set (elems (videoVariants s))" for v
  proof -
    have ne: "0 < length (elems (videoVariants s))"
      using v by (cases "elems (videoVariants s)") simp_all
    have vs: "v \<in> set ?xs"
      using v by simp
    have last: "nat (int (length (elems (videoVariants s))) - 1) = length ?xs - 1"
      by simp
    show ?thesis
      using ne sorted_first_last [OF srt vs]
      by (simp add: getVariant_fst catalogSize_def last del: length_sort)
  qed
  show ?thesis
    using ends
    by (simp add: setVariants_def getVariant_fst getVariant_snd catalogSize_def sorted_sort_key)
qed

theorem catalog_sorted_at_lookup_witness:
  "\<lparr>vid = 0, bandwidth = 500\<rparr> \<in> set (elems (videoVariants (setVariants catalog_unsorted (session First))))
   \<and> fst (getVariantByQualityIndex 0 (setVariants catalog_unsorted (session First)))
       = Some \<lparr>vid = 2, bandwidth = 100\<rparr>
   \<and> fst (getVariantByQualityIndex 2 (setVariants catalog_unsorted (session First)))
       = Some \<lparr>vid = 1, bandwidth = 1000\<rparr>
   \<and> sorted (map bandwidth (elems (videoVariants (snd (getVariantByQualityIndex 0
        (setVariants catalog_unsorted (session First)))))))"
proof -
  let ?s = "setVariants catalog_unsorted (session First)"
  have m: "\<lparr>vid = 0, bandwidth = 500\<rparr> \<in> set (elems (videoVariants ?s))"
    by (simp add: setVariants_def catalog_unsorted_def)
  have v: "fst (getVariantByQualityIndex 0 ?s) = Some \<lparr>vid = 2, bandwidth = 100\<rparr>"
    "fst (getVariantByQualityIndex 2 ?s) = Some \<lparr>vid = 1, bandwidth = 1000\<rparr>"
    by (simp_all add: setVariants_def catalog_unsorted_def getVariantByQualityIndex_def)
  show ?thesis
    using m v catalog_sorted_at_lookup [of catalog_unsorted "session First" 0]
      catalog_sorted_at_lookup [of _ ?s 0]
    by blast
qed

section \<open>Delay between the tracks\<close>

lemma last_seen_Nil: "last_seen ty given [] = given"
  by (simp add: last_seen_def)

lemma last_seen_Cons:
  "last_seen ty given (r # rs) =
     (if contentType r = Some ty then last_seen ty (timestamp r) rs else last_seen ty given rs)"
  by (simp add: last_seen_def split: list.splits)

lemma calculateDelay_forEach_last_seen:
  "calculateDelay_forEach segs (v, a) = (last_seen ''video'' v segs, last_seen ''audio'' a segs)"
  by (induction segs arbitrary: v a) (simp_all add: last_seen_Nil last_seen_Cons)

text \<open>
  C9, amended. \<open>calculateDelay\<close> scans all records in order, tracks the timestamp of the
  last \<open>video\<close> record and that of the last \<open>audio\<close> record, and returns the absolute
  difference of the two. For a content type without a record the argument of the call
  stands in for the timestamp, and the result is \<open>NaN\<close> when that argument was left out.
\<close>

theorem delay_of_last_seen:
  "calculateDelay v0 a0 s =
     abs_difference (last_seen ''video'' v0 (downloadedSegments s))
                    (last_seen ''audio'' a0 (downloadedSegments s))"
  by (simp add: calculateDelay_def calculateDelay_forEach_last_seen abs_difference_def)

text \<open>
  With both tracks recorded the result is the distance of the two last timestamps; with
  one track only and both arguments 0, it is the timestamp of that track.
\<close>

theorem delay_of_last_seen_witness:
  "map contentType (downloadedSegments telemetry3) = [Some ''video'', Some ''audio'', Some ''video'']
   \<and> map timestamp (downloadedSegments telemetry3) = [Some 90, Some 300, Some 781]
   \<and> calculateDelay None None telemetry3 = Some 481
   \<and> calculateDelay (Some 0) (Some 0) video_only = Some 90"
proof -
  have t3: "downloadedSegments telemetry3 =
     [\<lparr>contentType = Some ''video'', timestamp = Some 90, latency = Some 50, delay = Some 100\<rparr>,
      \<lparr>contentType = Some ''audio'', timestamp = Some 300, latency = Some 60, delay = Some 200\<rparr>,
      \<lparr>contentType = Some ''video'', timestamp = Some 781, latency = Some 70, delay = Some 300\<rparr>]"
    by (simp add: telemetry3_def segmentDownloaded_def run_defs)
  have v1: "downloadedSegments video_only =
     [\<lparr>contentType = Some ''video'', timestamp = Some 90, latency = Some 50, delay = None\<rparr>]"
    by (simp add: video_only_def segmentDownloaded_def request1_def run_defs)
  show ?thesis
    using delay_of_last_seen [of None None telemetry3]
      delay_of_last_seen [of "Some 0" "Some 0" video_only]
    by (simp add: t3 v1 last_seen_def abs_difference_def)
qed

text \<open>
  C9, as stated, fails where it has a large value returned: with a video record and no
  audio record, the call without arguments (the call of the source's timer) returns \<open>NaN\<close>,
  which is no number.
\<close>

theorem delay_one_track_counterexample:
  "map contentType (downloadedSegments video_only) = [Some ''video'']
   \<and> map timestamp (downloadedSegments video_only) = [Some 90]
   \<and> calculateDelay None None video_only = None"
  by (simp add: video_only_def segmentDownloaded_def request1_def calculateDelay_def run_defs)

section \<open>Recording a download\<close>

lemma decreaseQuality_frame:
  "hostCalls (snd (decreaseQuality s)) = hostCalls s"
  "downloadedSegments (snd (decreaseQuality s)) = downloadedSegments s"
  "klass (snd (decreaseQuality s)) = klass s"
  by (simp_all add: decreaseQuality_def Let_def getVariantByQualityIndex_def restrictions_def
      split: option.splits)

lemma increaseQuality_frame:
  "hostCalls (snd (increaseQuality s)) = hostCalls s"
  "downloadedSegments (snd (increaseQuality s)) = downloadedSegments s"
  "klass (snd (increaseQuality s)) = klass s"
  by (simp_all add: increaseQuality_def Let_def getVariantByQualityIndex_def restrictions_def
      split: option.splits klass.splits)

lemma chooseVariant_frame:
  "hostCalls (snd (chooseVariant s)) = hostCalls s"
  "downloadedSegments (snd (chooseVariant s)) = downloadedSegments s"
  "klass (snd (chooseVariant s)) = klass s"
  by (simp_all add: chooseVariant_transfer [of hostCalls] chooseVariant_transfer [of downloadedSegments]
      chooseVariant_transfer [of klass] decreaseQuality_frame increaseQuality_frame)

lemma startMonitoringBuffer_frame:
  "downloadedSegments (snd (startMonitoringBuffer x s)) = downloadedSegments s"
  "klass (snd (startMonitoringBuffer x s)) = klass s"
  by (simp_all add: startMonitoringBuffer_transfer [of downloadedSegments]
      startMonitoringBuffer_transfer [of klass] chooseVariant_frame)

lemma startMonitoringBuffer_evaluations:
  "evaluations (snd (startMonitoringBuffer x s)) = evaluations s + 1"
proof -
  define s1 where
    "s1 = s\<lparr>hostCalls := hostCalls s @ [GetBufferFullness], bufferLevel := toFixed1 x\<rparr>"
  obtain r t where rt: "chooseVariant s1 = (r, t)"
    by (cases "chooseVariant s1")
  have "hostCalls t = hostCalls (snd (chooseVariant s1))"
    by (simp add: rt)
  then have t: "evaluations t = evaluations s + 1"
    by (simp add: chooseVariant_frame s1_def evaluations_def)
  show ?thesis
    unfolding startMonitoringBuffer_cases [OF rt [unfolded s1_def]]
    using t by (simp add: evaluations_def split: sum.splits option.splits)
qed

text \<open>In a session that is set up an evaluation does not throw.\<close>

lemma evaluation_returns:
  assumes c: "config_m s = Some c" and f: "switchQualityCallback s = Some f"
    and r: "in_catalog_range s"
  shows "fst (startMonitoringBuffer x s) = Inr ()"
proof -
  define s1 where
    "s1 = s\<lparr>hostCalls := hostCalls s @ [GetBufferFullness], bufferLevel := toFixed1 x\<rparr>"
  have c1: "config_m s1 = Some c" and f1: "switchQualityCallback s1 = Some f"
    and r1: "0 \<le> currentQualityIndex s1"
      "currentQualityIndex s1 \<le> int (length (elems (videoVariants s1))) - 1"
    using c f r by (simp_all add: s1_def in_catalog_range_def catalogSize_def)
  obtain u t where b: "(if bufferLevel s1 < lowBufferThreshold s1 then decreaseQuality s1
           else if bufferLevel s1 > highBufferThreshold s1 then increaseQuality s1
           else (Inr (), s1)) = (u, t)"
    by (cases "if bufferLevel s1 < lowBufferThreshold s1 then decreaseQuality s1
           else if bufferLevel s1 > highBufferThreshold s1 then increaseQuality s1
           else (Inr (), s1)")
  have d: "fst (decreaseQuality s1) = Inr () \<and> config_m (snd (decreaseQuality s1)) \<noteq> None
      \<and> switchQualityCallback (snd (decreaseQuality s1)) = Some f"
    using c1 f1 r1
    by (simp add: decreaseQuality_def Let_def getVariantByQualityIndex_def restrictions_def)
  have i: "fst (increaseQuality s1) = Inr () \<and> config_m (snd (increaseQuality s1)) \<noteq> None
      \<and> switchQualityCallback (snd (increaseQuality s1)) = Some f"
    using c1 f1 r1
    by (cases "klass s1")
      (simp_all add: increaseQuality_def Let_def getVariantByQualityIndex_def restrictions_def)
  have ut: "u = Inr () \<and> config_m t \<noteq> None \<and> switchQualityCallback t = Some f"
    using b d i c1 f1 by (auto split: if_splits)
  obtain v t' where g: "getVariantByQualityIndex (currentQualityIndex t) t = (v, t')"
    by (cases "getVariantByQualityIndex (currentQualityIndex t) t")
  have t': "config_m t' \<noteq> None \<and> switchQualityCallback t' = Some f"
    using ut arg_cong [OF g, of snd] by (auto simp add: getVariant_snd)
  have cv: "chooseVariant s1 = (Inr v, t')"
    using ut by (simp add: chooseVariant_def b g)
  show ?thesis
    unfolding startMonitoringBuffer_cases [OF cv [unfolded s1_def]]
    using t' by (auto split: option.splits)
qed

text \<open>
  C8, as stated, fails: the evaluation comes first and the record after it, so that an
  evaluation that throws leaves no record. Here the object has a catalog and no
  configuration yet; the evaluation selects a variant and throws on reading the
  configuration, and the list of segments is as it was.
\<close>

theorem segmentDownloaded_counterexample:
  "fst (segmentDownloaded 40 1000 True (Some request1) (1 / 2) 90 90 unconfigured) = Inl TypeError
   \<and> downloadedSegments (snd (segmentDownloaded 40 1000 True (Some request1) (1 / 2) 90 90 unconfigured))
       = downloadedSegments unconfigured
   \<and> downloadedSegments unconfigured = []"
  by (simp add: segmentDownloaded_def unconfigured_def request1_def run_defs)

text \<open>
  C8, amended. \<open>segmentDownloaded\<close> runs exactly one evaluation of the buffer when
  \<open>allowSwitch\<close> is true and none when it is false. Given a request, it returns normally
  exactly when the evaluation, if there is one, does; it then has appended the record of
  the download, and when it throws it has appended nothing. In a session that is set up
  (a configuration, a callback, the index within the catalog) it returns normally, and so
  appends the record whatever \<open>allowSwitch\<close> is.
\<close>

theorem segmentDownloaded_records:
  "evaluations (snd (segmentDownloaded d n allowSwitch r x t1 t2 s))
      = evaluations s + (if allowSwitch then 1 else 0)
   \<and> (fst (segmentDownloaded d n allowSwitch (Some q) x t1 t2 s) = Inr ()
        \<longleftrightarrow> (allowSwitch \<longrightarrow> fst (startMonitoringBuffer x s) = Inr ()))
   \<and> (fst (segmentDownloaded d n allowSwitch (Some q) x t1 t2 s) = Inr () \<longrightarrow>
        downloadedSegments (snd (segmentDownloaded d n allowSwitch (Some q) x t1 t2 s))
          = downloadedSegments s @ [segmentRecord (klass s) d q t1 t2])
   \<and> (fst (segmentDownloaded d n allowSwitch r x t1 t2 s) \<noteq> Inr () \<longrightarrow>
        downloadedSegments (snd (segmentDownloaded d n allowSwitch r x t1 t2 s)) = downloadedSegments s)
   \<and> (config_m s \<noteq> None \<and> switchQualityCallback s \<noteq> None \<and> in_catalog_range s \<longrightarrow>
        fst (segmentDownloaded d n allowSwitch (Some q) x t1 t2 s) = Inr ())"
proof -
  obtain u t where e: "startMonitoringBuffer x s = (u, t)"
    by (cases "startMonitoringBuffer x s")
  have t: "evaluations t = evaluations s + 1" "downloadedSegments t = downloadedSegments s"
    "klass t = klass s"
    using startMonitoringBuffer_evaluations [of x s] startMonitoringBuffer_frame [of x s]
    by (simp_all add: e)
  have count: "evaluations (snd (segmentDownloaded d n allowSwitch r x t1 t2 s))
      = evaluations s + (if allowSwitch then 1 else 0)"
    using t(1)
    by (cases u; cases r; cases allowSwitch)
      (simp_all add: segmentDownloaded_def e Let_def evaluations_def)
  have ok: "fst (segmentDownloaded d n allowSwitch (Some q) x t1 t2 s) = Inr ()
        \<longleftrightarrow> (allowSwitch \<longrightarrow> fst (startMonitoringBuffer x s) = Inr ())"
    by (cases u; cases allowSwitch) (simp_all add: segmentDownloaded_def e Let_def)
  have rec: "downloadedSegments (snd (segmentDownloaded d n allowSwitch (Some q) x t1 t2 s))
          = downloadedSegments s @ [segmentRecord (klass s) d q t1 t2]"
    if "fst (segmentDownloaded d n allowSwitch (Some q) x t1 t2 s) = Inr ()"
    using that t(2,3)
    by (cases u; cases allowSwitch; cases "klass s"; cases "requestStartTime q")
      (simp_all add: segmentDownloaded_def e Let_def segmentRecord_def)
  have none: "downloadedSegments (snd (segmentDownloaded d n allowSwitch r x t1 t2 s)) = downloadedSegments s"
    if "fst (segmentDownloaded d n allowSwitch r x t1 t2 s) \<noteq> Inr ()"
    using that t(2)
    by (cases u; cases allowSwitch; cases r) (simp_all add: segmentDownloaded_def e Let_def)
  have ready: "fst (segmentDownloaded d n allowSwitch (Some q) x t1 t2 s) = Inr ()"
    if "config_m s \<noteq> None \<and> switchQualityCallback s \<noteq> None \<and> in_catalog_range s"
  proof -
    from that obtain c f where "config_m s = Some c" "switchQualityCallback s = Some f"
      "in_catalog_range s"
      by auto
    then have "fst (startMonitoringBuffer x s) = Inr ()"
      by (rule evaluation_returns)
    with ok show ?thesis by simp
  qed
  from count ok rec none ready show ?thesis
    by blast
qed

text \<open>
  The session with and without \<open>allowSwitch\<close>, and the object without configuration,
  where the evaluation throws.
\<close>

theorem segmentDownloaded_records_witness:
  "config_m (session First) \<noteq> None \<and> switchQualityCallback (session First) \<noteq> None
   \<and> in_catalog_range (session First)
   \<and> fst (segmentDownloaded 40 1000 True (Some request1) (9 / 10) 90 91 (session First)) = Inr ()
   \<and> downloadedSegments (snd (segmentDownloaded 40 1000 True (Some request1) (9 / 10) 90 91 (session First)))
       = [\<lparr>contentType = Some ''video'', timestamp = Some 91, latency = Some 50, delay = Some 100\<rparr>]
   \<and> evaluations (snd (segmentDownloaded 40 1000 True (Some request1) (9 / 10) 90 91 (session First)))
       = evaluations (session First) + 1
   \<and> fst (segmentDownloaded 40 1000 False (Some request1) (9 / 10) 90 91 (session First)) = Inr ()
   \<and> evaluations (snd (segmentDownloaded 40 1000 False (Some request1) (9 / 10) 90 91 (session First)))
       = evaluations (session First)
   \<and> fst (segmentDownloaded 40 1000 True (Some request1) (1 / 2) 90 91 unconfigured) \<noteq> Inr ()
   \<and> downloadedSegments (snd (segmentDownloaded 40 1000 True (Some request1) (1 / 2) 90 91 unconfigured))
       = downloadedSegments unconfigured"
proof -
  have h: "config_m (session First) \<noteq> None" "switchQualityCallback (session First) \<noteq> None"
    "in_catalog_range (session First)"
    by (simp_all add: run_defs in_catalog_range_def catalogSize_def)
  have k: "downloadedSegments (session First) = []" "klass (session First) = First"
    by (simp_all add: run_defs)
  have rec: "segmentRecord First 40 request1 90 91
      = \<lparr>contentType = Some ''video'', timestamp = Some 91, latency = Some 50, delay = Some 100\<rparr>"
    by (simp add: segmentRecord_def request1_def)
  have u: "fst (startMonitoringBuffer (1 / 2) unconfigured) \<noteq> Inr ()"
    by (simp add: unconfigured_def run_defs)
  show ?thesis
    using h u
      segmentDownloaded_records [of 40 1000 True "Some request1" "9 / 10" 90 91 "session First" request1]
      segmentDownloaded_records [of 40 1000 False "Some request1" "9 / 10" 90 91 "session First" request1]
      segmentDownloaded_records [of 40 1000 True "Some request1" "1 / 2" 90 91 unconfigured request1]
    by (simp add: k rec)
qed

end
